theory Spec2Isabelle
  imports Main "HOL-Library.Sublist"
begin

section \<open>Text: Python \<open>str\<close> methods used by shelf\_track.py\<close>

text \<open>
  A line typed at the terminal is a \<open>string\<close>; a character stands for the code point of
  the same number, so the lines covered are those over U+0000 .. U+00FF. The methods
  \<open>strip\<close>, \<open>lower\<close>, \<open>isdigit\<close>, \<open>title\<close> and the constructor \<open>int\<close> are written out
  for that range as CPython 3 defines them. \<open>title\<close> leaves the range at two characters
  (U+00B5 and U+00FF), so text that is stored in a table is a list of code points.
\<close>

type_synonym ustr = "nat list"

definition ord :: "char \<Rightarrow> nat" where
  "ord c = of_char c"

definition cp :: "string \<Rightarrow> ustr" where
  "cp s = map ord s"

definition isspace :: "char \<Rightarrow> bool" where
  "isspace c = (let n = ord c in
     (9 \<le> n \<and> n \<le> 13) \<or> (28 \<le> n \<and> n \<le> 32) \<or> n = 133 \<or> n = 160)"

definition strip :: "string \<Rightarrow> string" where
  "strip s = rev (dropWhile isspace (rev (dropWhile isspace s)))"

definition is_upper :: "char \<Rightarrow> bool" where
  "is_upper c = (let n = ord c in
     (65 \<le> n \<and> n \<le> 90) \<or> (192 \<le> n \<and> n \<le> 222 \<and> n \<noteq> 215))"

definition lower_char :: "char \<Rightarrow> char" where
  "lower_char c = (if is_upper c then char_of (ord c + 32) else c)"

definition lower :: "string \<Rightarrow> string" where
  "lower s = map lower_char s"

definition is_decimal :: "char \<Rightarrow> bool" where
  \<comment> \<open>the characters \<open>int\<close> reads as digits: 0 .. 9\<close>
  "is_decimal c = (48 \<le> ord c \<and> ord c \<le> 57)"

definition isdigit_char :: "char \<Rightarrow> bool" where
  \<comment> \<open>\<open>str.isdigit\<close> also holds of superscript two, three and one\<close>
  "isdigit_char c = (is_decimal c \<or> ord c = 178 \<or> ord c = 179 \<or> ord c = 185)"

definition isdigit :: "string \<Rightarrow> bool" where
  "isdigit s = (s \<noteq> [] \<and> list_all isdigit_char s)"

definition digit_val :: "char \<Rightarrow> int" where
  "digit_val c = int (ord c) - 48"

text \<open>
  \<open>int(s)\<close> in base 10: surrounding whitespace is dropped, one sign is allowed, and the
  digits may be grouped by single underscores. \<open>None\<close> is the \<open>ValueError\<close>, which
  CPython 3.11 also raises for a string with more than 4300 digits.
\<close>

definition int_max_str_digits :: nat where
  "int_max_str_digits = 4300"

fun int_digits :: "bool \<Rightarrow> int \<Rightarrow> string \<Rightarrow> int option" where
  "int_digits prev acc [] = (if prev then Some acc else None)"
| "int_digits prev acc (c # cs) =
     (if is_decimal c then int_digits True (10 * acc + digit_val c) cs
      else if c = CHR ''_'' \<and> prev then
        (case cs of [] \<Rightarrow> None
         | d # ds \<Rightarrow> if is_decimal d then int_digits False acc cs else None)
      else None)"

definition py_int :: "string \<Rightarrow> int option" where
  "py_int s =
     (if int_max_str_digits < length (filter is_decimal (strip s)) then None
      else
        (case strip s of
           [] \<Rightarrow> None
         | c # cs \<Rightarrow>
             if c = CHR ''-'' then map_option uminus (int_digits False 0 cs)
             else if c = CHR ''+'' then int_digits False 0 cs
             else int_digits False 0 (c # cs)))"

text \<open>
  \<open>str.title\<close>: a character that follows a cased character is lower-cased, any other is
  title-cased; the full case mappings may give two code points (U+00DF) or a code point
  above U+00FF.
\<close>

definition is_cased :: "char \<Rightarrow> bool" where
  "is_cased c = (let n = ord c in
     (65 \<le> n \<and> n \<le> 90) \<or> (97 \<le> n \<and> n \<le> 122) \<or> n = 170 \<or> n = 181 \<or> n = 186 \<or>
     (192 \<le> n \<and> n \<le> 214) \<or> (216 \<le> n \<and> n \<le> 246) \<or> (248 \<le> n \<and> n \<le> 255))"

definition to_lower_full :: "char \<Rightarrow> ustr" where
  "to_lower_full c = [ord (lower_char c)]"

definition to_title_full :: "char \<Rightarrow> ustr" where
  "to_title_full c = (let n = ord c in
     if 97 \<le> n \<and> n \<le> 122 then [n - 32]
     else if n = 181 then [924]
     else if n = 223 then [83, 115]
     else if 224 \<le> n \<and> n \<le> 254 \<and> n \<noteq> 247 then [n - 32]
     else if n = 255 then [376]
     else [n])"

fun title_from :: "bool \<Rightarrow> string \<Rightarrow> ustr" where
  "title_from prev [] = []"
| "title_from prev (c # cs) =
     (if prev then to_lower_full c else to_title_full c) @ title_from (is_cased c) cs"

definition py_title :: "string \<Rightarrow> ustr" where
  \<comment> \<open>\<open>str.title\<close>\<close>
  "py_title s = title_from False s"


section \<open>The record store\<close>

text \<open>
  The two tables of \<open>create_tables\<close>. A table is the list of its rows in the order a scan
  of the table visits them: SQLite keeps a table with an \<open>INTEGER PRIMARY KEY\<close> ordered by
  that key. No foreign key is declared, so a table holds any rows with distinct ids.
\<close>

record book =
  b_id :: int
  b_title :: ustr
  b_author :: int
  b_qty :: int

record author =
  a_id :: int
  a_name :: ustr
  a_country :: ustr

record store =
  books :: "book list"
  authors :: "author list"

datatype error = EOFError | ValueError | IntegrityError | OverflowError | OperationalError

definition book_by_id :: "store \<Rightarrow> int \<Rightarrow> book option" where
  \<comment> \<open>\<open>SELECT * FROM book WHERE id = ?\<close> and \<open>fetchone\<close>\<close>
  "book_by_id s i = find (\<lambda>b. b_id b = i) (books s)"

definition author_by_id :: "store \<Rightarrow> int \<Rightarrow> author option" where
  \<comment> \<open>\<open>SELECT * FROM author WHERE id = ?\<close> and \<open>fetchone\<close>\<close>
  "author_by_id s i = find (\<lambda>a. a_id a = i) (authors s)"

definition books_of_author :: "store \<Rightarrow> int \<Rightarrow> book list" where
  \<comment> \<open>\<open>SELECT * FROM book WHERE authorID = ?\<close> and \<open>fetchall\<close>\<close>
  "books_of_author s i = filter (\<lambda>b. b_author b = i) (books s)"

definition insert_book :: "book \<Rightarrow> store \<Rightarrow> error + store" where
  \<comment> \<open>\<open>INSERT INTO book\<close>: a second row with the same id is refused\<close>
  "insert_book b s =
     (if book_by_id s (b_id b) \<noteq> None then Inl IntegrityError
      else Inr (s\<lparr>books := insort_key b_id b (books s)\<rparr>))"

definition insert_author :: "author \<Rightarrow> store \<Rightarrow> error + store" where
  "insert_author a s =
     (if author_by_id s (a_id a) \<noteq> None then Inl IntegrityError
      else Inr (s\<lparr>authors := insort_key a_id a (authors s)\<rparr>))"

definition update_qty :: "int \<Rightarrow> int \<Rightarrow> store \<Rightarrow> store" where
  \<comment> \<open>\<open>UPDATE book SET qty = ? WHERE id = ?\<close>\<close>
  "update_qty q i s =
     s\<lparr>books := map (\<lambda>b. if b_id b = i then b\<lparr>b_qty := q\<rparr> else b) (books s)\<rparr>"

definition update_title :: "ustr \<Rightarrow> int \<Rightarrow> store \<Rightarrow> store" where
  "update_title t i s =
     s\<lparr>books := map (\<lambda>b. if b_id b = i then b\<lparr>b_title := t\<rparr> else b) (books s)\<rparr>"

definition update_author_id :: "int \<Rightarrow> int \<Rightarrow> store \<Rightarrow> store" where
  "update_author_id a i s =
     s\<lparr>books := map (\<lambda>b. if b_id b = i then b\<lparr>b_author := a\<rparr> else b) (books s)\<rparr>"

definition update_author :: "ustr \<Rightarrow> ustr \<Rightarrow> int \<Rightarrow> store \<Rightarrow> store" where
  \<comment> \<open>\<open>UPDATE author SET name = ?, country = ? WHERE id = ?\<close>\<close>
  "update_author n c i s =
     s\<lparr>authors :=
         map (\<lambda>a. if a_id a = i then a\<lparr>a_name := n, a_country := c\<rparr> else a) (authors s)\<rparr>"

definition delete_book_row :: "int \<Rightarrow> store \<Rightarrow> store" where
  \<comment> \<open>\<open>DELETE FROM book WHERE id = ?\<close>\<close>
  "delete_book_row i s = s\<lparr>books := filter (\<lambda>b. b_id b \<noteq> i) (books s)\<rparr>"

definition delete_author_row :: "int \<Rightarrow> store \<Rightarrow> store" where
  "delete_author_row i s = s\<lparr>authors := filter (\<lambda>a. a_id a \<noteq> i) (authors s)\<rparr>"

text \<open>
  \<open>title LIKE ?\<close> as SQLite evaluates it by default: \<open>%\<close> stands for any run of
  characters, \<open>_\<close> for any one character, and two characters match when they are equal
  or are the same ASCII letter in either case. SQLite reads the pattern and the text up
  to their first U+0000, and refuses a pattern of more than 50000 bytes (in UTF-8) with
  an error, \<open>sqlite3.OperationalError\<close> in Python, when it comes to match it against a
  row.
\<close>

definition fold_ascii :: "nat \<Rightarrow> nat" where
  "fold_ascii n = (if 65 \<le> n \<and> n \<le> 90 then n + 32 else n)"

fun like :: "ustr \<Rightarrow> ustr \<Rightarrow> bool" where
  "like [] t = (t = [])"
| "like (p # ps) [] = (p = 37 \<and> like ps [])"
| "like (p # ps) (c # cs) =
     (if p = 37 then like ps (c # cs) \<or> like (p # ps) cs
      else (p = 95 \<or> fold_ascii p = fold_ascii c) \<and> like ps cs)"

definition upto_nul :: "ustr \<Rightarrow> ustr" where
  \<comment> \<open>a text as a C string: what precedes its first U+0000\<close>
  "upto_nul t = takeWhile (\<lambda>n. n \<noteq> 0) t"

definition utf8_length :: "string \<Rightarrow> nat" where
  \<comment> \<open>bytes in UTF-8: one below U+0080, two from there to U+00FF\<close>
  "utf8_length q = length q + length (filter (\<lambda>c. 128 \<le> ord c) q)"

definition like_limit :: nat where
  \<comment> \<open>\<open>SQLITE_MAX_LIKE_PATTERN_LENGTH\<close>\<close>
  "like_limit = 50000"

definition like_too_long :: "store \<Rightarrow> string \<Rightarrow> bool" where
  \<comment> \<open>the pattern \<open>f'%{title}%'\<close> is refused: it is too long and there is a row to match\<close>
  "like_too_long s q = (books s \<noteq> [] \<and> like_limit < utf8_length q + 2)"

definition books_like :: "store \<Rightarrow> string \<Rightarrow> book list" where
  \<comment> \<open>\<open>SELECT * FROM book WHERE title LIKE ?\<close> with the parameter \<open>f'%{title}%'\<close>\<close>
  "books_like s q =
     filter (\<lambda>b. like (upto_nul (37 # cp q @ [37])) (upto_nul (b_title b))) (books s)"

definition books_with_authors :: "store \<Rightarrow> (ustr \<times> ustr \<times> ustr) list" where
  \<comment> \<open>\<open>SELECT book.title, author.name, author.country FROM book INNER JOIN author ...\<close>\<close>
  "books_with_authors s =
     concat (map (\<lambda>b. map (\<lambda>a. (b_title b, a_name a, a_country a))
                         (filter (\<lambda>a. a_id a = b_author b) (authors s))) (books s))"


section \<open>The terminal\<close>

text \<open>
  The program reads the lines of standard input in turn: \<open>input(p)\<close> writes the prompt
  \<open>p\<close> and returns the next line, or raises \<open>EOFError\<close> when there is none. What is
  written is a list of events. The prompts and the fixed messages are the texts of the
  source, without their line breaks; a message that shows a row or a field carries it.
\<close>

datatype event =
    Ask string                \<comment> \<open>the prompt of an \<open>input\<close> call\<close>
  | Say string                \<comment> \<open>a \<open>print\<close> of a fixed text\<close>
  | Say_book string book      \<comment> \<open>heading, then ID, Title, AuthorID and Quantity of a book\<close>
  | Say_book_line book        \<comment> \<open>ID | Title | AuthorID | Quantity, on one line\<close>
  | Say_author string author  \<comment> \<open>heading, then ID, Name and Country of an author\<close>
  | Say_field string ustr     \<comment> \<open>a label followed by a stored text\<close>
  | Say_blank                 \<comment> \<open>\<open>print()\<close>\<close>

definition P_new_author_id :: string where
  "P_new_author_id = ''Enter new 4-digit author ID or 'x' to cancel: ''"

definition P_author_name :: string where
  "P_author_name = ''Enter author name: ''"

definition P_author_country :: string where
  "P_author_country = ''Enter author's country: ''"

definition P_add_what :: string where
  "P_add_what = ''What would you like to add? ('Book' or 'Author', or 'x' to cancel): ''"

definition P_new_book_id :: string where
  "P_new_book_id = ''Enter 4-digit book ID or 'x' to cancel: ''"

definition P_book_title :: string where
  "P_book_title = ''Enter book title or 'x' to cancel: ''"

definition P_book_author_id :: string where
  "P_book_author_id = ''Enter 4-digit author ID or 'x' to cancel: ''"

definition P_quantity :: string where
  "P_quantity = ''Enter quantity or 'x' to cancel: ''"

definition P_update_book_id :: string where
  "P_update_book_id = ''Enter the ID of the book to update (or 'x' to cancel): ''"

definition P_update_what :: string where
  "P_update_what = ''What would you like to update? (qty/title/authorID/author) [default is qty, 'x' to cancel]: ''"

definition P_new_quantity :: string where
  "P_new_quantity = ''Enter new quantity (or 'x' to cancel): ''"

definition P_new_title :: string where
  "P_new_title = ''Enter new title (or 'x' to cancel): ''"

definition P_changed_author_id :: string where
  "P_changed_author_id = ''Enter new author ID (must already exist, or 'x' to cancel): ''"

definition P_new_author_name :: string where
  "P_new_author_name = ''Enter new author name (or press Enter to keep current, or 'x' to cancel): ''"

definition P_new_author_country :: string where
  "P_new_author_country = ''Enter new author country (or press Enter to keep current, or 'x' to cancel): ''"

definition P_delete_author_id :: string where
  "P_delete_author_id = ''Enter the 4-digit ID of the author to delete (or 'x' to cancel): ''"

definition P_confirm_author :: string where
  "P_confirm_author = ''Delete this author? (yes/no): ''"

definition P_delete_what :: string where
  "P_delete_what = ''What would you like to delete? ('Book' or 'Author' or 'x' to cancel): ''"

definition P_delete_book_id :: string where
  "P_delete_book_id = ''Enter the 4-digit ID of the book to delete (or 'x' to cancel): ''"

definition P_confirm_book :: string where
  "P_confirm_book = ''Delete this book? (yes/no): ''"

definition P_search_by :: string where
  "P_search_by = ''Search by ID or title? (type 'id' or 'title', or 'x' to cancel): ''"

definition P_search_id :: string where
  "P_search_id = ''Enter the 4-digit book ID (or 'x' to cancel): ''"

definition P_search_title :: string where
  "P_search_title = ''Enter the book title (or part of it, or 'x' to cancel): ''"

definition P_menu :: string where
  "P_menu = ''Select one of the following options: 1 - add book/author 2 - update book 3 - delete book/author 4 - search books 5 - view details of all books 0 - exit : ''"



definition M_operation_cancelled :: string where
  "M_operation_cancelled = ''Operation cancelled.''"

definition M_author_id_numeric :: string where
  "M_author_id_numeric = ''Author ID must be a numeric value with exactly 4 digits.''"

definition M_author_exists :: string where
  "M_author_exists = ''An author with that ID already exists. Try another.''"

definition M_author_name_empty :: string where
  "M_author_name_empty = ''Author name cannot be empty.''"

definition M_author_country_empty :: string where
  "M_author_country_empty = ''Author country cannot be empty.''"

definition M_author_added :: string where
  "M_author_added = ''Author added successfully.''"

definition M_book_id_numeric :: string where
  "M_book_id_numeric = ''Book ID must be a numeric value with exactly 4 digits.''"

definition M_book_exists :: string where
  "M_book_exists = ''A book with that ID already exists. Please enter a different ID.''"

definition M_title_required :: string where
  "M_title_required = ''Book title is required.''"

definition M_no_author_valid :: string where
  "M_no_author_valid = ''No author found with that ID. Please enter a valid author ID.''"

definition M_quantity_required :: string where
  "M_quantity_required = ''Quantity is required.''"

definition M_quantity_negative :: string where
  "M_quantity_negative = ''Quantity cannot be negative.''"

definition M_quantity_numeric :: string where
  "M_quantity_numeric = ''Invalid input. Please enter a numeric quantity.''"

definition M_book_added :: string where
  "M_book_added = ''Book added successfully.''"

definition M_add_invalid :: string where
  "M_add_invalid = ''Invalid input. Please type 'book', 'author', or 'x' to cancel.''"

definition M_book_id_required :: string where
  "M_book_id_required = ''Book ID is required.''"

definition M_book_id_4digit :: string where
  "M_book_id_4digit = ''Book ID must be a 4-digit number.''"

definition M_no_book_again :: string where
  "M_no_book_again = ''No book found with that ID. Please try again.''"

definition M_current_book :: string where
  "M_current_book = ''Current book details:''"

definition M_quantity_updated :: string where
  "M_quantity_updated = ''Quantity updated successfully.''"

definition M_quantity_number :: string where
  "M_quantity_number = ''Invalid quantity. Please enter a number.''"

definition M_title_empty :: string where
  "M_title_empty = ''Title cannot be empty. Please try again.''"

definition M_title_updated :: string where
  "M_title_updated = ''Title updated successfully.''"

definition M_author_id_required :: string where
  "M_author_id_required = ''Author ID is required.''"

definition M_author_id_4digit :: string where
  "M_author_id_4digit = ''Author ID must be a 4-digit number.''"

definition M_author_id_updated :: string where
  "M_author_id_updated = ''Book's author ID updated successfully.''"

definition M_author_id_missing :: string where
  "M_author_id_missing = ''The author ID does not exist. Please enter an existing author ID.''"

definition M_current_name :: string where
  "M_current_name = ''Current Author Name: ''"

definition M_current_country :: string where
  "M_current_country = ''Current Author Country: ''"

definition M_author_updated :: string where
  "M_author_updated = ''Author information updated successfully.''"

definition M_author_not_found :: string where
  "M_author_not_found = ''Author not found for this book.''"

definition M_invalid_field :: string where
  "M_invalid_field = ''Invalid field. Please choose from: qty, title, authorID, or author.''"

definition M_no_author_again :: string where
  "M_no_author_again = ''No author found with that ID. Try again.''"

definition M_author_has_books :: string where
  "M_author_has_books = ''This author has books associated with them.''"

definition M_delete_books_first :: string where
  "M_delete_books_first = ''Please delete those books first.''"

definition M_author_selected :: string where
  "M_author_selected = ''Author selected:''"

definition M_author_deleted :: string where
  "M_author_deleted = ''Author deleted successfully.''"

definition M_deletion_cancelled :: string where
  "M_deletion_cancelled = ''Deletion cancelled.''"

definition M_type_yes_or_no :: string where
  "M_type_yes_or_no = ''Please type 'yes' or 'no'.''"

definition M_input_blank :: string where
  "M_input_blank = ''Input cannot be blank.''"

definition M_no_book :: string where
  "M_no_book = ''No book found with that ID.''"

definition M_book_selected :: string where
  "M_book_selected = ''Book selected:''"

definition M_book_deleted :: string where
  "M_book_deleted = ''Book deleted successfully.''"

definition M_delete_invalid :: string where
  "M_delete_invalid = ''Invalid option. Choose 'Book' or 'Author'.''"

definition M_book_found :: string where
  "M_book_found = ''Book found:''"

definition M_books_found :: string where
  "M_books_found = ''Books found:''"

definition M_no_books_matching :: string where
  "M_no_books_matching = ''No books found matching that title.''"

definition M_search_invalid :: string where
  "M_search_invalid = ''Invalid option. Please type 'id', 'title', or 'x'.''"

definition M_details :: string where
  "M_details = ''Details''"

definition M_rule :: string where
  "M_rule = ''-------------------------------------------------------''"

definition M_view_title :: string where
  "M_view_title = ''Title: ''"

definition M_view_name :: string where
  "M_view_name = ''Author's Name: ''"

definition M_view_country :: string where
  "M_view_country = ''Author's Country: ''"

definition M_goodbye :: string where
  "M_goodbye = ''Goodbye!!!''"

definition M_invalid_option :: string where
  "M_invalid_option = ''Invalid option.''"

text \<open>
  A workflow either returns to its caller, with the store as committed and the lines
  not yet read, or ends in an exception that nothing catches. A prompt loop inside a
  workflow yields a value, or makes the workflow return, or raises.
\<close>

datatype outcome = Returned store "string list" | Raised error store

datatype 'a asked = Value 'a "string list" | Return_now "string list" | Raise_now error

type_synonym result = "event list \<times> outcome"

definition emit :: "event list \<Rightarrow> event list \<times> 'a \<Rightarrow> event list \<times> 'a" where
  "emit es r = (es @ fst r, snd r)"

definition and_then ::
  "store \<Rightarrow> event list \<times> 'a asked \<Rightarrow> ('a \<Rightarrow> string list \<Rightarrow> result) \<Rightarrow> result" where
  \<comment> \<open>the code after a prompt loop runs when the loop was left by \<open>break\<close>\<close>
  "and_then s r k =
     (case snd r of
        Value v ins \<Rightarrow> emit (fst r) (k v ins)
      | Return_now ins \<Rightarrow> (fst r, Returned s ins)
      | Raise_now e \<Rightarrow> (fst r, Raised e s))"

definition final_store :: "outcome \<Rightarrow> store" where
  "final_store r = (case r of Returned s ins \<Rightarrow> s | Raised e s \<Rightarrow> s)"

definition cancel_operation :: "string \<Rightarrow> event list \<times> bool" where
  "cancel_operation user_input =
     (if lower user_input = ''x'' then ([Say M_operation_cancelled], True) else ([], False))"


definition sqlite_max_int :: int where
  \<comment> \<open>a larger Python integer passed as a parameter raises \<open>OverflowError\<close>\<close>
  "sqlite_max_int = 9223372036854775807"

section \<open>Adding a book or an author\<close>

fun add_author_id :: "store \<Rightarrow> string list \<Rightarrow> event list \<times> int asked" where
  \<comment> \<open>the \<open>while True\<close> loop of \<open>add_author\<close>\<close>
  "add_author_id s [] = ([Ask P_new_author_id], Raise_now EOFError)"
| "add_author_id s (l # ins) =
     (let author_input = strip l in
      if lower author_input = ''x'' then
        ([Ask P_new_author_id, Say M_operation_cancelled], Return_now ins)
      else if \<not> isdigit author_input \<or> length author_input \<noteq> 4 then
        emit [Ask P_new_author_id, Say M_author_id_numeric] (add_author_id s ins)
      else
        (case py_int author_input of
           None \<Rightarrow> ([Ask P_new_author_id], Raise_now ValueError)
         | Some author_id \<Rightarrow>
             if author_by_id s author_id \<noteq> None then
               emit [Ask P_new_author_id, Say M_author_exists] (add_author_id s ins)
             else ([Ask P_new_author_id], Value author_id ins)))"

definition add_author_fields :: "store \<Rightarrow> int \<Rightarrow> string list \<Rightarrow> result" where
  \<comment> \<open>\<open>add_author\<close> after its loop: name, country, \<open>INSERT\<close>\<close>
  "add_author_fields s author_id ins =
     (case ins of
        [] \<Rightarrow> ([Ask P_author_name], Raised EOFError s)
      | l1 # ins1 \<Rightarrow>
          let name = py_title (strip l1) in
          if name = [] then ([Ask P_author_name, Say M_author_name_empty], Returned s ins1)
          else
            (case ins1 of
               [] \<Rightarrow> ([Ask P_author_name, Ask P_author_country], Raised EOFError s)
             | l2 # ins2 \<Rightarrow>
                 let country = py_title (strip l2) in
                 if country = [] then
                   ([Ask P_author_name, Ask P_author_country, Say M_author_country_empty],
                    Returned s ins2)
                 else
                   (case insert_author
                           \<lparr>a_id = author_id, a_name = name, a_country = country\<rparr> s of
                      Inl e \<Rightarrow> ([Ask P_author_name, Ask P_author_country], Raised e s)
                    | Inr s' \<Rightarrow>
                        ([Ask P_author_name, Ask P_author_country, Say M_author_added],
                         Returned s' ins2))))"

definition add_author :: "store \<Rightarrow> string list \<Rightarrow> result" where
  "add_author s ins = and_then s (add_author_id s ins) (add_author_fields s)"

fun add_book_id :: "store \<Rightarrow> string list \<Rightarrow> event list \<times> int asked" where
  \<comment> \<open>"Get a unique 4-digit book ID"\<close>
  "add_book_id s [] = ([Ask P_new_book_id], Raise_now EOFError)"
| "add_book_id s (l # ins) =
     (let book_id_input = strip l in
      if snd (cancel_operation book_id_input) then
        (Ask P_new_book_id # fst (cancel_operation book_id_input), Return_now ins)
      else if \<not> isdigit book_id_input \<or> length book_id_input \<noteq> 4 then
        emit [Ask P_new_book_id, Say M_book_id_numeric] (add_book_id s ins)
      else
        (case py_int book_id_input of
           None \<Rightarrow> ([Ask P_new_book_id], Raise_now ValueError)
         | Some book_id \<Rightarrow>
             if book_by_id s book_id \<noteq> None then
               emit [Ask P_new_book_id, Say M_book_exists] (add_book_id s ins)
             else ([Ask P_new_book_id], Value book_id ins)))"

definition add_book_title :: "string list \<Rightarrow> event list \<times> string asked" where
  \<comment> \<open>"Get the book title": asked once\<close>
  "add_book_title ins =
     (case ins of
        [] \<Rightarrow> ([Ask P_book_title], Raise_now EOFError)
      | l # ins1 \<Rightarrow>
          let title = strip l in
          if snd (cancel_operation title) then
            (Ask P_book_title # fst (cancel_operation title), Return_now ins1)
          else if title = [] then ([Ask P_book_title, Say M_title_required], Return_now ins1)
          else ([Ask P_book_title], Value title ins1))"

fun add_book_author_id :: "store \<Rightarrow> string list \<Rightarrow> event list \<times> int asked" where
  \<comment> \<open>"Get a valid 4-digit author ID"\<close>
  "add_book_author_id s [] = ([Ask P_book_author_id], Raise_now EOFError)"
| "add_book_author_id s (l # ins) =
     (let author_id_input = strip l in
      if snd (cancel_operation author_id_input) then
        (Ask P_book_author_id # fst (cancel_operation author_id_input), Return_now ins)
      else if \<not> isdigit author_id_input \<or> length author_id_input \<noteq> 4 then
        emit [Ask P_book_author_id, Say M_author_id_numeric] (add_book_author_id s ins)
      else
        (case py_int author_id_input of
           None \<Rightarrow> ([Ask P_book_author_id], Raise_now ValueError)
         | Some author_id \<Rightarrow>
             if author_by_id s author_id \<noteq> None then ([Ask P_book_author_id], Value author_id ins)
             else emit [Ask P_book_author_id, Say M_no_author_valid] (add_book_author_id s ins)))"

fun add_book_quantity :: "string list \<Rightarrow> event list \<times> int asked" where
  \<comment> \<open>"Get quantity"\<close>
  "add_book_quantity [] = ([Ask P_quantity], Raise_now EOFError)"
| "add_book_quantity (l # ins) =
     (let qty_input = strip l in
      if snd (cancel_operation qty_input) then
        (Ask P_quantity # fst (cancel_operation qty_input), Return_now ins)
      else if qty_input = [] then
        emit [Ask P_quantity, Say M_quantity_required] (add_book_quantity ins)
      else
        (case py_int qty_input of
           None \<Rightarrow> emit [Ask P_quantity, Say M_quantity_numeric] (add_book_quantity ins)
         | Some qty \<Rightarrow>
             if qty \<ge> 0 then ([Ask P_quantity], Value qty ins)
             else emit [Ask P_quantity, Say M_quantity_negative] (add_book_quantity ins)))"

definition add_book_insert ::
  "store \<Rightarrow> int \<Rightarrow> string \<Rightarrow> int \<Rightarrow> int \<Rightarrow> string list \<Rightarrow> result" where
  \<comment> \<open>"Insert the book"\<close>
  "add_book_insert s book_id title author_id qty ins =
     (if qty > sqlite_max_int then ([], Raised OverflowError s)
      else
        (case insert_book
                \<lparr>b_id = book_id, b_title = cp title, b_author = author_id, b_qty = qty\<rparr> s of
           Inl e \<Rightarrow> ([], Raised e s)
         | Inr s' \<Rightarrow> ([Say M_book_added], Returned s' ins)))"

definition add_book :: "store \<Rightarrow> string list \<Rightarrow> result" where
  \<comment> \<open>the branch \<open>choice == "book"\<close> of \<open>add_book_or_author\<close>\<close>
  "add_book s ins =
     and_then s (add_book_id s ins) (\<lambda>book_id ins1.
     and_then s (add_book_title ins1) (\<lambda>title ins2.
     and_then s (add_book_author_id s ins2) (\<lambda>author_id ins3.
     and_then s (add_book_quantity ins3) (\<lambda>qty ins4.
       add_book_insert s book_id title author_id qty ins4))))"

fun add_book_or_author :: "store \<Rightarrow> string list \<Rightarrow> result" where
  "add_book_or_author s [] = ([Ask P_add_what], Raised EOFError s)"
| "add_book_or_author s (l # ins) =
     (let choice = lower (strip l) in
      if snd (cancel_operation choice) then
        (Ask P_add_what # fst (cancel_operation choice), Returned s ins)
      else if choice = ''book'' then emit [Ask P_add_what] (add_book s ins)
      else if choice = ''author'' then emit [Ask P_add_what] (add_author s ins)
      else emit [Ask P_add_what, Say M_add_invalid] (add_book_or_author s ins))"


section \<open>Updating a book\<close>

fun update_book_id :: "store \<Rightarrow> string list \<Rightarrow> event list \<times> (int \<times> book) asked" where
  \<comment> \<open>"Get valid book ID": yields \<open>book_id\<close> and the row \<open>book\<close>\<close>
  "update_book_id s [] = ([Ask P_update_book_id], Raise_now EOFError)"
| "update_book_id s (l # ins) =
     (let book_id_input = strip l in
      if snd (cancel_operation book_id_input) then
        (Ask P_update_book_id # fst (cancel_operation book_id_input), Return_now ins)
      else if book_id_input = [] then
        emit [Ask P_update_book_id, Say M_book_id_required] (update_book_id s ins)
      else if \<not> isdigit book_id_input \<or> length book_id_input \<noteq> 4 then
        emit [Ask P_update_book_id, Say M_book_id_4digit] (update_book_id s ins)
      else
        (case py_int book_id_input of
           None \<Rightarrow> ([Ask P_update_book_id], Raise_now ValueError)
         | Some book_id \<Rightarrow>
             (case book_by_id s book_id of
                Some book \<Rightarrow> ([Ask P_update_book_id], Value (book_id, book) ins)
              | None \<Rightarrow>
                  emit [Ask P_update_book_id, Say M_no_book_again] (update_book_id s ins))))"

fun update_book_qty :: "store \<Rightarrow> int \<Rightarrow> string list \<Rightarrow> result" where
  \<comment> \<open>the loop of the branch \<open>update_choice == "qty"\<close>\<close>
  "update_book_qty s book_id [] = ([Ask P_new_quantity], Raised EOFError s)"
| "update_book_qty s book_id (l # ins) =
     (let new_qty_input = strip l in
      if snd (cancel_operation new_qty_input) then
        (Ask P_new_quantity # fst (cancel_operation new_qty_input), Returned s ins)
      else if new_qty_input = [] then
        emit [Ask P_new_quantity, Say M_quantity_required] (update_book_qty s book_id ins)
      else
        (case py_int new_qty_input of
           None \<Rightarrow>
             emit [Ask P_new_quantity, Say M_quantity_number] (update_book_qty s book_id ins)
         | Some new_qty \<Rightarrow>
             if new_qty < 0 then
               emit [Ask P_new_quantity, Say M_quantity_negative] (update_book_qty s book_id ins)
             else if new_qty > sqlite_max_int then ([Ask P_new_quantity], Raised OverflowError s)
             else
               ([Ask P_new_quantity, Say M_quantity_updated],
                Returned (update_qty new_qty book_id s) ins)))"

fun update_book_title :: "store \<Rightarrow> int \<Rightarrow> string list \<Rightarrow> result" where
  \<comment> \<open>the loop of the branch \<open>update_choice == "title"\<close>\<close>
  "update_book_title s book_id [] = ([Ask P_new_title], Raised EOFError s)"
| "update_book_title s book_id (l # ins) =
     (let new_title = strip l in
      if snd (cancel_operation new_title) then
        (Ask P_new_title # fst (cancel_operation new_title), Returned s ins)
      else if new_title = [] then
        emit [Ask P_new_title, Say M_title_empty] (update_book_title s book_id ins)
      else
        ([Ask P_new_title, Say M_title_updated],
         Returned (update_title (cp new_title) book_id s) ins))"

fun update_book_author_id :: "store \<Rightarrow> int \<Rightarrow> string list \<Rightarrow> result" where
  \<comment> \<open>the loop of the branch \<open>update_choice == "authorid"\<close>\<close>
  "update_book_author_id s book_id [] = ([Ask P_changed_author_id], Raised EOFError s)"
| "update_book_author_id s book_id (l # ins) =
     (let new_author_id_input = strip l in
      if snd (cancel_operation new_author_id_input) then
        (Ask P_changed_author_id # fst (cancel_operation new_author_id_input), Returned s ins)
      else if new_author_id_input = [] then
        emit [Ask P_changed_author_id, Say M_author_id_required]
          (update_book_author_id s book_id ins)
      else if \<not> isdigit new_author_id_input \<or> length new_author_id_input \<noteq> 4 then
        emit [Ask P_changed_author_id, Say M_author_id_4digit]
          (update_book_author_id s book_id ins)
      else
        (case py_int new_author_id_input of
           None \<Rightarrow> ([Ask P_changed_author_id], Raised ValueError s)
         | Some new_author_id \<Rightarrow>
             if author_by_id s new_author_id \<noteq> None then
               ([Ask P_changed_author_id, Say M_author_id_updated],
                Returned (update_author_id new_author_id book_id s) ins)
             else
               emit [Ask P_changed_author_id, Say M_author_id_missing]
                 (update_book_author_id s book_id ins)))"

definition update_book_author :: "store \<Rightarrow> book \<Rightarrow> author \<Rightarrow> string list \<Rightarrow> result" where
  \<comment> \<open>the branch \<open>update_choice == "author"\<close> when the row \<open>author\<close> was found\<close>
  "update_book_author s book author ins =
     emit [Say_field M_current_name (a_name author),
           Say_field M_current_country (a_country author)]
     (case ins of
        [] \<Rightarrow> ([Ask P_new_author_name], Raised EOFError s)
      | l1 # ins1 \<Rightarrow>
          let new_name = strip l1 in
          if snd (cancel_operation new_name) then
            (Ask P_new_author_name # fst (cancel_operation new_name), Returned s ins1)
          else
            (case ins1 of
               [] \<Rightarrow> ([Ask P_new_author_name, Ask P_new_author_country], Raised EOFError s)
             | l2 # ins2 \<Rightarrow>
                 let new_country = strip l2 in
                 if snd (cancel_operation new_country) then
                   ([Ask P_new_author_name, Ask P_new_author_country]
                      @ fst (cancel_operation new_country),
                    Returned s ins2)
                 else
                   ([Ask P_new_author_name, Ask P_new_author_country, Say M_author_updated],
                    Returned
                      (update_author
                         (if new_name = [] then a_name author else cp new_name)
                         (if new_country = [] then a_country author else cp new_country)
                         (b_author book) s)
                      ins2)))"

fun update_book_choice :: "store \<Rightarrow> int \<Rightarrow> book \<Rightarrow> string list \<Rightarrow> result" where
  \<comment> \<open>"Ask and update field"\<close>
  "update_book_choice s book_id book [] = ([Ask P_update_what], Raised EOFError s)"
| "update_book_choice s book_id book (l # ins) =
     (let update_choice = lower (strip l) in
      if snd (cancel_operation update_choice) then
        (Ask P_update_what # fst (cancel_operation update_choice), Returned s ins)
      else
        let update_choice = (if update_choice = [] then ''qty'' else update_choice) in
        if update_choice = ''qty'' then emit [Ask P_update_what] (update_book_qty s book_id ins)
        else if update_choice = ''title'' then
          emit [Ask P_update_what] (update_book_title s book_id ins)
        else if update_choice = ''authorid'' then
          emit [Ask P_update_what] (update_book_author_id s book_id ins)
        else if update_choice = ''author'' then
          (case author_by_id s (b_author book) of
             Some author \<Rightarrow> emit [Ask P_update_what] (update_book_author s book author ins)
           | None \<Rightarrow>
               emit [Ask P_update_what, Say M_author_not_found]
                 (update_book_choice s book_id book ins))
        else
          emit [Ask P_update_what, Say M_invalid_field] (update_book_choice s book_id book ins))"

definition update_book :: "store \<Rightarrow> string list \<Rightarrow> result" where
  "update_book s ins =
     and_then s (update_book_id s ins) (\<lambda>found ins1.
       emit [Say_book M_current_book (snd found)]
         (update_book_choice s (fst found) (snd found) ins1))"

section \<open>Deleting a book or an author\<close>

fun delete_author_id :: "store \<Rightarrow> string list \<Rightarrow> event list \<times> (int \<times> author) asked" where
  \<comment> \<open>the first loop of \<open>delete_author\<close>: yields \<open>author_id\<close> and the row \<open>author\<close>\<close>
  "delete_author_id s [] = ([Ask P_delete_author_id], Raise_now EOFError)"
| "delete_author_id s (l # ins) =
     (let author_id_input = strip l in
      if snd (cancel_operation author_id_input) then
        (Ask P_delete_author_id # fst (cancel_operation author_id_input), Return_now ins)
      else if author_id_input = [] then
        emit [Ask P_delete_author_id, Say M_author_id_required] (delete_author_id s ins)
      else if \<not> isdigit author_id_input \<or> length author_id_input \<noteq> 4 then
        emit [Ask P_delete_author_id, Say M_author_id_4digit] (delete_author_id s ins)
      else
        (case py_int author_id_input of
           None \<Rightarrow> ([Ask P_delete_author_id], Raise_now ValueError)
         | Some author_id \<Rightarrow>
             (case author_by_id s author_id of
                Some author \<Rightarrow> ([Ask P_delete_author_id], Value (author_id, author) ins)
              | None \<Rightarrow>
                  emit [Ask P_delete_author_id, Say M_no_author_again]
                    (delete_author_id s ins))))"

fun delete_author_confirm :: "store \<Rightarrow> int \<Rightarrow> string list \<Rightarrow> result" where
  \<comment> \<open>"Confirm deletion"\<close>
  "delete_author_confirm s author_id [] = ([Ask P_confirm_author], Raised EOFError s)"
| "delete_author_confirm s author_id (l # ins) =
     (let confirm = lower (strip l) in
      if snd (cancel_operation confirm) then
        (Ask P_confirm_author # fst (cancel_operation confirm), Returned s ins)
      else if confirm = ''yes'' then
        ([Ask P_confirm_author, Say M_author_deleted],
         Returned (delete_author_row author_id s) ins)
      else if confirm = ''no'' then
        ([Ask P_confirm_author, Say M_deletion_cancelled], Returned s ins)
      else
        emit [Ask P_confirm_author, Say M_type_yes_or_no] (delete_author_confirm s author_id ins))"

definition delete_author :: "store \<Rightarrow> string list \<Rightarrow> result" where
  "delete_author s ins =
     and_then s (delete_author_id s ins) (\<lambda>found ins1.
       if books_of_author s (fst found) \<noteq> [] then
         ([Say M_author_has_books, Say M_delete_books_first], Returned s ins1)
       else
         emit [Say_author M_author_selected (snd found)]
           (delete_author_confirm s (fst found) ins1))"

fun delete_book_id :: "store \<Rightarrow> string list \<Rightarrow> event list \<times> (int \<times> book) asked" where
  \<comment> \<open>the first loop of the branch \<open>choice == "book"\<close>\<close>
  "delete_book_id s [] = ([Ask P_delete_book_id], Raise_now EOFError)"
| "delete_book_id s (l # ins) =
     (let book_input = strip l in
      if snd (cancel_operation book_input) then
        (Ask P_delete_book_id # fst (cancel_operation book_input), Return_now ins)
      else if book_input = [] then
        emit [Ask P_delete_book_id, Say M_book_id_required] (delete_book_id s ins)
      else if \<not> isdigit book_input \<or> length book_input \<noteq> 4 then
        emit [Ask P_delete_book_id, Say M_book_id_4digit] (delete_book_id s ins)
      else
        (case py_int book_input of
           None \<Rightarrow> ([Ask P_delete_book_id], Raise_now ValueError)
         | Some book_id \<Rightarrow>
             (case book_by_id s book_id of
                Some book \<Rightarrow> ([Ask P_delete_book_id], Value (book_id, book) ins)
              | None \<Rightarrow> emit [Ask P_delete_book_id, Say M_no_book] (delete_book_id s ins))))"

fun delete_book_confirm :: "store \<Rightarrow> int \<Rightarrow> string list \<Rightarrow> result" where
  \<comment> \<open>the second loop of the branch \<open>choice == "book"\<close>\<close>
  "delete_book_confirm s book_id [] = ([Ask P_confirm_book], Raised EOFError s)"
| "delete_book_confirm s book_id (l # ins) =
     (let confirm = lower (strip l) in
      if confirm = ''yes'' then
        ([Ask P_confirm_book, Say M_book_deleted], Returned (delete_book_row book_id s) ins)
      else if confirm = ''no'' then
        ([Ask P_confirm_book, Say M_deletion_cancelled], Returned s ins)
      else emit [Ask P_confirm_book, Say M_type_yes_or_no] (delete_book_confirm s book_id ins))"

definition delete_book :: "store \<Rightarrow> string list \<Rightarrow> result" where
  \<comment> \<open>the branch \<open>choice == "book"\<close> of \<open>delete_book_or_author\<close>\<close>
  "delete_book s ins =
     and_then s (delete_book_id s ins) (\<lambda>found ins1.
       emit [Say_book M_book_selected (snd found)] (delete_book_confirm s (fst found) ins1))"

fun delete_book_or_author :: "store \<Rightarrow> string list \<Rightarrow> result" where
  "delete_book_or_author s [] = ([Ask P_delete_what], Raised EOFError s)"
| "delete_book_or_author s (l # ins) =
     (let choice = lower (strip l) in
      if snd (cancel_operation choice) then
        (Ask P_delete_what # fst (cancel_operation choice), Returned s ins)
      else if choice = [] then
        emit [Ask P_delete_what, Say M_input_blank] (delete_book_or_author s ins)
      else if choice = ''book'' then emit [Ask P_delete_what] (delete_book s ins)
      else if choice = ''author'' then emit [Ask P_delete_what] (delete_author s ins)
      else emit [Ask P_delete_what, Say M_delete_invalid] (delete_book_or_author s ins))"


section \<open>Searching and listing\<close>

fun search_books :: "store \<Rightarrow> string list \<Rightarrow> result" where
  "search_books s [] = ([Ask P_search_by], Raised EOFError s)"
| "search_books s (l # ins) =
     (let search_by = lower (strip l) in
      if snd (cancel_operation search_by) then
        (Ask P_search_by # fst (cancel_operation search_by), Returned s ins)
      else if search_by = [] then
        emit [Ask P_search_by, Say M_input_blank] (search_books s ins)
      else if search_by = ''id'' then
        (case ins of
           [] \<Rightarrow> ([Ask P_search_by, Ask P_search_id], Raised EOFError s)
         | l2 # ins2 \<Rightarrow>
             let book_input = strip l2 in
             if snd (cancel_operation book_input) then
               ([Ask P_search_by, Ask P_search_id] @ fst (cancel_operation book_input),
                Returned s ins2)
             else if book_input = [] then
               emit [Ask P_search_by, Ask P_search_id, Say M_book_id_required]
                 (search_books s ins2)
             else if \<not> isdigit book_input \<or> length book_input \<noteq> 4 then
               emit [Ask P_search_by, Ask P_search_id, Say M_book_id_4digit]
                 (search_books s ins2)
             else
               (case py_int book_input of
                  None \<Rightarrow> ([Ask P_search_by, Ask P_search_id], Raised ValueError s)
                | Some book_id \<Rightarrow>
                    (case book_by_id s book_id of
                       Some book \<Rightarrow>
                         ([Ask P_search_by, Ask P_search_id, Say_book M_book_found book],
                          Returned s ins2)
                     | None \<Rightarrow>
                         emit [Ask P_search_by, Ask P_search_id, Say M_no_book]
                           (search_books s ins2))))
      else if search_by = ''title'' then
        (case ins of
           [] \<Rightarrow> ([Ask P_search_by, Ask P_search_title], Raised EOFError s)
         | l2 # ins2 \<Rightarrow>
             let title = strip l2 in
             if snd (cancel_operation title) then
               ([Ask P_search_by, Ask P_search_title] @ fst (cancel_operation title),
                Returned s ins2)
             else if title = [] then
               emit [Ask P_search_by, Ask P_search_title, Say M_title_required]
                 (search_books s ins2)
             else if like_too_long s title then
               ([Ask P_search_by, Ask P_search_title], Raised OperationalError s)
             else if books_like s title \<noteq> [] then
               ([Ask P_search_by, Ask P_search_title, Say M_books_found]
                  @ map Say_book_line (books_like s title) @ [Say_blank],
                Returned s ins2)
             else
               emit [Ask P_search_by, Ask P_search_title, Say M_no_books_matching]
                 (search_books s ins2))
      else emit [Ask P_search_by, Say M_search_invalid] (search_books s ins))"

definition view_all_books :: "store \<Rightarrow> string list \<Rightarrow> result" where
  "view_all_books s ins =
     ([Say M_details, Say M_rule]
        @ concat (map (\<lambda>row. [Say_field M_view_title (fst row),
                               Say_field M_view_name (fst (snd row)),
                               Say_field M_view_country (snd (snd row)),
                               Say M_rule])
                      (books_with_authors s)),
      Returned s ins)"

section \<open>The menu and the start of the program\<close>

definition main_menu_choice :: "store \<Rightarrow> string \<Rightarrow> string list \<Rightarrow> result option" where
  \<comment> \<open>one turn of the loop of \<open>main_menu\<close>; \<open>None\<close> is the \<open>break\<close>\<close>
  "main_menu_choice s menu ins =
     (if menu = ''1'' then Some (add_book_or_author s ins)
      else if menu = ''2'' then Some (update_book s ins)
      else if menu = ''3'' then Some (delete_book_or_author s ins)
      else if menu = ''4'' then Some (search_books s ins)
      else if menu = ''5'' then Some (view_all_books s ins)
      else if menu = ''0'' then None
      else Some ([Say M_invalid_option], Returned s ins))"

definition unread :: "outcome \<Rightarrow> string list" where
  "unread r = (case r of Returned s ins \<Rightarrow> ins | Raised e s \<Rightarrow> [])"

definition unread_asked :: "'a asked \<Rightarrow> string list" where
  "unread_asked r = (case r of Value v ins \<Rightarrow> ins | Return_now ins \<Rightarrow> ins | Raise_now e \<Rightarrow> [])"

function main_menu :: "store \<Rightarrow> string list \<Rightarrow> result" where
  "main_menu s [] = ([Ask P_menu], Raised EOFError s)"
| "main_menu s (l # ins) =
     (case main_menu_choice s (strip l) ins of
        None \<Rightarrow> ([Ask P_menu, Say M_goodbye], Returned s ins)
      | Some r \<Rightarrow>
          (case snd r of
             Returned s' ins' \<Rightarrow> emit (Ask P_menu # fst r) (main_menu s' ins')
           | Raised e s' \<Rightarrow> (Ask P_menu # fst r, Raised e s')))"
  by pat_completeness auto




definition book_data :: "book list" where
  "book_data =
     [\<lparr>b_id = 3001, b_title = cp ''A Tale of Two Cities'', b_author = 1290, b_qty = 30\<rparr>,
      \<lparr>b_id = 3002, b_title = cp ''Harry Potter and the Philosopher's Stone'',
       b_author = 8937, b_qty = 40\<rparr>,
      \<lparr>b_id = 3003, b_title = cp ''The Lion, the Witch and the Wardrobe'',
       b_author = 2356, b_qty = 25\<rparr>,
      \<lparr>b_id = 3004, b_title = cp ''The Lord of the Rings'', b_author = 6380, b_qty = 37\<rparr>,
      \<lparr>b_id = 3005, b_title = cp ''Alice's Adventures in Wonderland'',
       b_author = 5620, b_qty = 12\<rparr>]"

definition author_data :: "author list" where
  "author_data =
     [\<lparr>a_id = 1290, a_name = cp ''Charles Dickens'', a_country = cp ''England''\<rparr>,
      \<lparr>a_id = 8937, a_name = cp ''J.K. Rowling'', a_country = cp ''England''\<rparr>,
      \<lparr>a_id = 2356, a_name = cp ''C.S. Lewis'', a_country = cp ''Ireland''\<rparr>,
      \<lparr>a_id = 6380, a_name = cp ''J.R.R. Tolkien'', a_country = cp ''South Africa''\<rparr>,
      \<lparr>a_id = 5620, a_name = cp ''Lewis Carroll'', a_country = cp ''England''\<rparr>]"





definition sample_store :: store where
  \<comment> \<open>the store after the first start of the program: the sample rows, by id\<close>
  "sample_store = \<lparr>books = book_data, authors = sort_key a_id author_data\<rparr>"

section \<open>The properties\<close>

definition decimal_value :: "string \<Rightarrow> int" where
  \<comment> \<open>the integer that a string of digits denotes in base 10\<close>
  "decimal_value s = foldl (\<lambda>a c. 10 * a + digit_val c) 0 s"

definition id_ok :: "int \<Rightarrow> bool" where
  \<comment> \<open>the values of the strings of four digits\<close>
  "id_ok n = (0 \<le> n \<and> n \<le> 9999)"

definition four_digit :: "int \<Rightarrow> bool" where
  \<comment> \<open>an integer whose decimal representation has exactly four digits\<close>
  "four_digit n = (1000 \<le> n \<and> n \<le> 9999)"

definition four_digit_ids :: "store \<Rightarrow> bool" where
  "four_digit_ids s =
     (list_all (\<lambda>b. four_digit (b_id b)) (books s) \<and>
      list_all (\<lambda>a. four_digit (a_id a)) (authors s))"

definition ids_inv :: "store \<Rightarrow> bool" where
  \<comment> \<open>every identifier in the store is the value of a string of four digits\<close>
  "ids_inv s =
     (list_all (\<lambda>b. id_ok (b_id b) \<and> id_ok (b_author b)) (books s) \<and>
      list_all (\<lambda>a. id_ok (a_id a)) (authors s))"

definition ref_inv :: "store \<Rightarrow> bool" where
  \<comment> \<open>every book's \<open>authorID\<close> is the id of an author in the store\<close>
  "ref_inv s = list_all (\<lambda>b. author_by_id s (b_author b) \<noteq> None) (books s)"


definition books_containing_nocase :: "store \<Rightarrow> string \<Rightarrow> book list" where
  \<comment> \<open>the same when an ASCII letter and its other case count as equal\<close>
  "books_containing_nocase s q =
     filter (\<lambda>b. sublist (map fold_ascii (cp q)) (map fold_ascii (b_title b))) (books s)"



definition same_but_author :: "int \<Rightarrow> store \<Rightarrow> store \<Rightarrow> bool" where
  \<comment> \<open>\<open>s'\<close> is \<open>s\<close> except for the name and country of the authors with id \<open>i\<close>\<close>
  "same_but_author i s s' =
     (books s' = books s \<and>
      map a_id (authors s') = map a_id (authors s) \<and>
      list_all2 (\<lambda>a a'. a_id a \<noteq> i \<longrightarrow> a' = a) (authors s) (authors s'))"

text \<open>
  The writes that the workflows make, each with what the workflow has checked before it.
\<close>

inductive writes :: "store \<Rightarrow> store \<Rightarrow> bool" where
  ins_author: "id_ok (a_id a) \<Longrightarrow> author_by_id s (a_id a) = None \<Longrightarrow>
     writes s (s\<lparr>authors := insort_key a_id a (authors s)\<rparr>)"
| ins_book: "id_ok (b_id b) \<Longrightarrow> id_ok (b_author b) \<Longrightarrow> book_by_id s (b_id b) = None \<Longrightarrow>
     author_by_id s (b_author b) \<noteq> None \<Longrightarrow>
     writes s (s\<lparr>books := insort_key b_id b (books s)\<rparr>)"
| set_qty: "writes s (update_qty q i s)"
| set_title: "writes s (update_title t i s)"
| set_author_id: "id_ok a \<Longrightarrow> author_by_id s a \<noteq> None \<Longrightarrow> writes s (update_author_id a i s)"
| set_author: "writes s (update_author n c i s)"
| del_book: "writes s (delete_book_row i s)"
| del_author: "books_of_author s a = [] \<Longrightarrow> writes s (delete_author_row a s)"

definition wrote :: "store \<Rightarrow> store \<Rightarrow> bool" where
  "wrote s s' = (s' = s \<or> writes s s')"

section \<open>Reading an identifier\<close>

lemma isdigit_char_not_space: "isdigit_char c \<Longrightarrow> \<not> isspace c"
  by (auto simp: isdigit_char_def is_decimal_def isspace_def Let_def)

lemma strip_unchanged:
  assumes "t \<noteq> []" "\<not> isspace (hd t)" "\<not> isspace (last t)"
  shows "strip t = t"
proof -
  have a: "dropWhile isspace t = t"
    using assms(1,2) by (cases t) auto
  have b: "dropWhile isspace (rev t) = rev t"
    using assms(1,3) by (cases "rev t") (auto simp: last_rev[symmetric] simp del: last_rev)
  show ?thesis by (simp add: strip_def a b)
qed

lemma strip_isdigit: "isdigit t \<Longrightarrow> strip t = t"
  by (rule strip_unchanged)
     (auto simp: isdigit_def list_all_iff isdigit_char_not_space)

lemma int_digits_decimal:
  "list_all is_decimal cs \<Longrightarrow> cs \<noteq> [] \<or> prev \<Longrightarrow>
   int_digits prev acc cs = Some (foldl (\<lambda>a c. 10 * a + digit_val c) acc cs)"
  by (induction cs arbitrary: prev acc) auto

lemma int_digits_isdigit:
  "int_digits prev acc cs = Some n \<Longrightarrow> list_all isdigit_char cs \<Longrightarrow> list_all is_decimal cs"
proof (induction cs arbitrary: prev acc)
  case Nil
  then show ?case by simp
next
  case (Cons c cs)
  from Cons.prems have "is_decimal c"
    by (auto simp: isdigit_char_def ord_def split: if_splits list.splits)
  with Cons show ?case by auto
qed

lemma isdigit_char_not_sign: "isdigit_char c \<Longrightarrow> c \<noteq> CHR ''-'' \<and> c \<noteq> CHR ''+''"
  by (auto simp: isdigit_char_def is_decimal_def ord_def)

lemma py_int_isdigit_cases:
  "isdigit t \<Longrightarrow>
   py_int t =
     (if int_max_str_digits < length (filter is_decimal t) then None
      else int_digits False 0 t)"
  using isdigit_char_not_sign
  by (cases t) (auto simp: py_int_def strip_isdigit isdigit_def)



lemma py_int_isdigit_Some:
  assumes "isdigit t" "py_int t = Some n"
  shows "list_all is_decimal t \<and> n = decimal_value t"
proof -
  have d: "int_digits False 0 t = Some n"
    using assms by (simp add: py_int_isdigit_cases split: if_splits)
  then have "list_all is_decimal t"
    using assms(1) int_digits_isdigit[of False 0 t n] by (simp add: isdigit_def)
  moreover have "t \<noteq> []"
    using assms(1) by (simp add: isdigit_def)
  ultimately show ?thesis
    using d by (simp add: int_digits_decimal decimal_value_def)
qed

lemma digit_val_range: "is_decimal c \<Longrightarrow> 0 \<le> digit_val c \<and> digit_val c \<le> 9"
  by (auto simp: is_decimal_def digit_val_def)

lemma decimal_value_4:
  assumes "length t = 4" "list_all is_decimal t"
  shows "id_ok (decimal_value t)"
proof -
  obtain a b c d where t: "t = [a, b, c, d]"
    using assms(1) by (auto simp: length_Suc_conv numeral_eq_Suc)
  show ?thesis
    using assms(2) digit_val_range[of a] digit_val_range[of b]
      digit_val_range[of c] digit_val_range[of d]
    by (simp add: t decimal_value_def id_ok_def)
qed

lemma four_digit_value:
  "isdigit t \<Longrightarrow> length t = 4 \<Longrightarrow> py_int t = Some n \<Longrightarrow> id_ok n"
  using py_int_isdigit_Some decimal_value_4 by blast

lemma lower_length: "length (lower t) = length t"
  by (simp add: lower_def)

lemma not_x_4: "length t = 4 \<Longrightarrow> lower t \<noteq> ''x''"
  using lower_length[of t] by auto

section \<open>A workflow reads lines and never gives one back\<close>

lemma snd_emit [simp]: "snd (emit es r) = snd r"
  by (simp add: emit_def)

lemma fst_emit [simp]: "fst (emit es r) = es @ fst r"
  by (simp add: emit_def)

lemma unread_simps [simp]:
  "unread (Returned s ins) = ins" "unread (Raised e s) = []"
  by (simp_all add: unread_def)

lemma unread_asked_simps [simp]:
  "unread_asked (Value v ins) = ins" "unread_asked (Return_now ins) = ins"
  "unread_asked (Raise_now e) = []"
  by (simp_all add: unread_asked_def)

lemma and_then_unread:
  assumes "length (unread_asked (snd r)) \<le> n"
    and "\<And>v i. length (unread (snd (k v i))) \<le> length i"
  shows "length (unread (snd (and_then s r k))) \<le> n"
  using assms(1) order_trans[OF assms(2)]
  by (cases "snd r") (auto simp: and_then_def)

lemma add_author_id_unread: "length (unread_asked (snd (add_author_id s ins))) \<le> length ins"
  by (induction ins) (auto simp: Let_def split: option.splits)

lemma add_author_fields_unread: "length (unread (snd (add_author_fields s a ins))) \<le> length ins"
  by (auto simp: add_author_fields_def Let_def split: list.splits sum.splits)

lemma add_author_unread: "length (unread (snd (add_author s ins))) \<le> length ins"
  unfolding add_author_def
  by (rule and_then_unread[OF add_author_id_unread add_author_fields_unread])

lemma add_book_id_unread: "length (unread_asked (snd (add_book_id s ins))) \<le> length ins"
  by (induction ins) (auto simp: Let_def split: option.splits)

lemma add_book_title_unread: "length (unread_asked (snd (add_book_title ins))) \<le> length ins"
  by (auto simp: add_book_title_def Let_def split: list.splits)

lemma add_book_author_id_unread:
  "length (unread_asked (snd (add_book_author_id s ins))) \<le> length ins"
  by (induction ins) (auto simp: Let_def split: option.splits)

lemma add_book_quantity_unread:
  "length (unread_asked (snd (add_book_quantity ins))) \<le> length ins"
  by (induction ins) (auto simp: Let_def split: option.splits)

lemma add_book_insert_unread:
  "length (unread (snd (add_book_insert s b t a q ins))) \<le> length ins"
  by (auto simp: add_book_insert_def split: sum.splits)

lemma add_book_unread: "length (unread (snd (add_book s ins))) \<le> length ins"
  unfolding add_book_def
  by (intro and_then_unread add_book_id_unread add_book_title_unread
        add_book_author_id_unread add_book_quantity_unread add_book_insert_unread)

lemma add_book_or_author_unread:
  "length (unread (snd (add_book_or_author s ins))) \<le> length ins"
  by (induction ins) (auto simp: Let_def le_SucI add_book_unread add_author_unread)


lemma update_book_id_unread: "length (unread_asked (snd (update_book_id s ins))) \<le> length ins"
  by (induction ins) (auto simp: Let_def split: option.splits)

lemma update_book_qty_unread: "length (unread (snd (update_book_qty s b ins))) \<le> length ins"
  by (induction ins) (auto simp: Let_def split: option.splits)

lemma update_book_title_unread: "length (unread (snd (update_book_title s b ins))) \<le> length ins"
  by (induction ins) (auto simp: Let_def)

lemma update_book_author_id_unread:
  "length (unread (snd (update_book_author_id s b ins))) \<le> length ins"
  by (induction ins) (auto simp: Let_def split: option.splits)

lemma update_book_author_unread:
  "length (unread (snd (update_book_author s b a ins))) \<le> length ins"
  by (auto simp: update_book_author_def Let_def split: list.splits)

lemma update_book_choice_unread:
  "length (unread (snd (update_book_choice s i b ins))) \<le> length ins"
  by (induction ins)
     (auto simp: Let_def le_SucI update_book_qty_unread update_book_title_unread
        update_book_author_id_unread update_book_author_unread split: option.splits)

lemma update_book_unread: "length (unread (snd (update_book s ins))) \<le> length ins"
  unfolding update_book_def
  by (rule and_then_unread[OF update_book_id_unread]) (simp add: update_book_choice_unread)

lemma delete_author_id_unread:
  "length (unread_asked (snd (delete_author_id s ins))) \<le> length ins"
  by (induction ins) (auto simp: Let_def split: option.splits)

lemma delete_author_confirm_unread:
  "length (unread (snd (delete_author_confirm s a ins))) \<le> length ins"
  by (induction ins) (auto simp: Let_def)

lemma delete_author_unread: "length (unread (snd (delete_author s ins))) \<le> length ins"
  unfolding delete_author_def
  by (rule and_then_unread[OF delete_author_id_unread])
     (simp add: delete_author_confirm_unread)

lemma delete_book_id_unread:
  "length (unread_asked (snd (delete_book_id s ins))) \<le> length ins"
  by (induction ins) (auto simp: Let_def split: option.splits)

lemma delete_book_confirm_unread:
  "length (unread (snd (delete_book_confirm s b ins))) \<le> length ins"
  by (induction ins) (auto simp: Let_def)

lemma delete_book_unread: "length (unread (snd (delete_book s ins))) \<le> length ins"
  unfolding delete_book_def
  by (rule and_then_unread[OF delete_book_id_unread])
     (simp add: delete_book_confirm_unread)

lemma delete_book_or_author_unread:
  "length (unread (snd (delete_book_or_author s ins))) \<le> length ins"
  by (induction ins) (auto simp: Let_def le_SucI delete_book_unread delete_author_unread)

lemma search_books_unread: "length (unread (snd (search_books s ins))) \<le> length ins"
proof (induction ins rule: length_induct)
  case (1 ins)
  show ?case
  proof (cases ins)
    case Nil
    then show ?thesis by simp
  next
    case (Cons l rest)
    have step1: "length (unread (snd (search_books s rest))) \<le> length ins"
      using 1 Cons by (simp add: le_SucI)
    have step2: "length (unread (snd (search_books s r2))) \<le> length ins"
      if "rest = l2 # r2" for l2 r2
      using 1 Cons that by (simp add: le_SucI)
    show ?thesis
      using step1 step2 Cons
      by (auto simp: Let_def split: list.splits option.splits)
  qed
qed

lemma view_all_books_unread: "length (unread (snd (view_all_books s ins))) \<le> length ins"
  by (simp add: view_all_books_def)

lemma main_menu_choice_unread:
  "main_menu_choice s menu ins = Some r \<Longrightarrow> length (unread (snd r)) \<le> length ins"
  by (auto simp: main_menu_choice_def add_book_or_author_unread update_book_unread
        delete_book_or_author_unread search_books_unread view_all_books_unread
        split: if_splits)

section \<open>A workflow makes at most one write\<close>

lemma final_store_simps [simp]:
  "final_store (Returned s ins) = s" "final_store (Raised e s) = s"
  by (simp_all add: final_store_def)

lemma and_then_final:
  assumes "Q s" and "\<And>v i. snd r = Value v i \<Longrightarrow> Q (final_store (snd (k v i)))"
  shows "Q (final_store (snd (and_then s r k)))"
  using assms by (cases "snd r") (auto simp: and_then_def)

lemma add_author_id_value:
  "snd (add_author_id s ins) = Value a ins' \<Longrightarrow> id_ok a \<and> author_by_id s a = None"
  by (induction ins)
     (auto simp: Let_def four_digit_value split: if_splits option.splits)

lemma add_book_id_value:
  "snd (add_book_id s ins) = Value a ins' \<Longrightarrow> id_ok a \<and> book_by_id s a = None"
  by (induction ins)
     (auto simp: Let_def four_digit_value cancel_operation_def split: if_splits option.splits)

lemma add_book_author_id_value:
  "snd (add_book_author_id s ins) = Value a ins' \<Longrightarrow> id_ok a \<and> author_by_id s a \<noteq> None"
  by (induction ins)
     (auto simp: Let_def four_digit_value cancel_operation_def split: if_splits option.splits)

lemma delete_author_id_value:
  "snd (delete_author_id s ins) = Value v ins' \<Longrightarrow> author_by_id s (fst v) = Some (snd v)"
  by (induction ins)
     (auto simp: Let_def cancel_operation_def split: if_splits option.splits)

lemma wrote_refl [simp]: "wrote s s"
  by (simp add: wrote_def)

lemma wrote_writes: "writes s s' \<Longrightarrow> wrote s s'"
  by (simp add: wrote_def)

lemma add_author_fields_writes:
  assumes "id_ok a" "author_by_id s a = None"
  shows "wrote s (final_store (snd (add_author_fields s a ins)))"
proof -
  have "wrote s (s\<lparr>authors := insort_key a_id \<lparr>a_id = a, a_name = n, a_country = c\<rparr> (authors s)\<rparr>)"
    for n c
    using ins_author[of "\<lparr>a_id = a, a_name = n, a_country = c\<rparr>" s] assms
    by (simp add: wrote_writes)
  then show ?thesis
    using assms by (simp add: add_author_fields_def Let_def insert_author_def split: list.splits)
qed

lemma add_author_writes: "wrote s (final_store (snd (add_author s ins)))"
  unfolding add_author_def
proof (rule and_then_final)
  show "wrote s s" by simp
next
  fix v i assume "snd (add_author_id s ins) = Value v i"
  then show "wrote s (final_store (snd (add_author_fields s v i)))"
    using add_author_id_value add_author_fields_writes by blast
qed

lemma add_book_insert_writes:
  assumes "id_ok i" "book_by_id s i = None" "id_ok a" "author_by_id s a \<noteq> None"
  shows "wrote s (final_store (snd (add_book_insert s i t a q ins)))"
  using ins_book[of "\<lparr>b_id = i, b_title = cp t, b_author = a, b_qty = q\<rparr>" s] assms
  by (simp add: add_book_insert_def insert_book_def wrote_writes)

lemma add_book_writes: "wrote s (final_store (snd (add_book s ins)))"
  unfolding add_book_def
proof (rule and_then_final)
  show "wrote s s" by simp
next
  fix i ins1 assume i: "snd (add_book_id s ins) = Value i ins1"
  show "wrote s (final_store (snd (and_then s (add_book_title ins1) (\<lambda>title ins2.
     and_then s (add_book_author_id s ins2) (\<lambda>author_id ins3.
     and_then s (add_book_quantity ins3) (\<lambda>qty ins4.
       add_book_insert s i title author_id qty ins4))))))"
  proof (rule and_then_final)
    show "wrote s s" by simp
  next
    fix t ins2
    show "wrote s (final_store (snd (and_then s (add_book_author_id s ins2) (\<lambda>author_id ins3.
       and_then s (add_book_quantity ins3) (\<lambda>qty ins4.
         add_book_insert s i t author_id qty ins4)))))"
    proof (rule and_then_final)
      show "wrote s s" by simp
    next
      fix a ins3 assume a: "snd (add_book_author_id s ins2) = Value a ins3"
      show "wrote s (final_store (snd (and_then s (add_book_quantity ins3) (\<lambda>qty ins4.
         add_book_insert s i t a qty ins4))))"
      proof (rule and_then_final)
        show "wrote s s" by simp
      next
        fix q ins4
        show "wrote s (final_store (snd (add_book_insert s i t a q ins4)))"
          using add_book_id_value[OF i] add_book_author_id_value[OF a]
          by (simp add: add_book_insert_writes)
      qed
    qed
  qed
qed

lemma add_book_or_author_writes:
  "wrote s (final_store (snd (add_book_or_author s ins)))"
  by (induction ins) (simp_all add: Let_def add_book_writes add_author_writes)


lemma update_book_qty_writes: "wrote s (final_store (snd (update_book_qty s i ins)))"
  by (induction ins) (simp_all add: Let_def wrote_writes set_qty split: option.splits)

lemma update_book_title_writes: "wrote s (final_store (snd (update_book_title s i ins)))"
  by (induction ins) (simp_all add: Let_def wrote_writes set_title)

lemma update_book_author_id_writes:
  "wrote s (final_store (snd (update_book_author_id s i ins)))"
proof (induction ins)
  case Nil
  then show ?case by simp
next
  case (Cons l ins)
  have "wrote s (update_author_id a i s)"
    if "isdigit (strip l)" "length (strip l) = 4" "py_int (strip l) = Some a"
      "author_by_id s a \<noteq> None" for a
    using that four_digit_value set_author_id wrote_writes by blast
  with Cons show ?case
    by (simp add: Let_def split: option.splits)
qed

lemma update_book_author_writes:
  "wrote s (final_store (snd (update_book_author s b a ins)))"
  by (simp add: update_book_author_def Let_def wrote_writes set_author split: list.splits)

lemma update_book_choice_writes:
  "wrote s (final_store (snd (update_book_choice s i b ins)))"
  by (induction ins)
     (simp_all add: Let_def update_book_qty_writes update_book_title_writes
        update_book_author_id_writes update_book_author_writes split: option.splits)

lemma update_book_writes: "wrote s (final_store (snd (update_book s ins)))"
  unfolding update_book_def
  by (rule and_then_final) (simp_all add: update_book_choice_writes)

lemma delete_author_confirm_writes:
  "books_of_author s a = [] \<Longrightarrow> wrote s (final_store (snd (delete_author_confirm s a ins)))"
  by (induction ins) (simp_all add: Let_def wrote_writes del_author)

lemma delete_author_writes: "wrote s (final_store (snd (delete_author s ins)))"
  unfolding delete_author_def
  by (rule and_then_final) (simp_all add: delete_author_confirm_writes)

lemma delete_book_confirm_writes:
  "wrote s (final_store (snd (delete_book_confirm s i ins)))"
  by (induction ins) (simp_all add: Let_def wrote_writes del_book)

lemma delete_book_writes: "wrote s (final_store (snd (delete_book s ins)))"
  unfolding delete_book_def
  by (rule and_then_final) (simp_all add: delete_book_confirm_writes)

lemma delete_book_or_author_writes:
  "wrote s (final_store (snd (delete_book_or_author s ins)))"
  by (induction ins) (simp_all add: Let_def delete_book_writes delete_author_writes)

lemma search_books_reads: "final_store (snd (search_books s ins)) = s"
proof (induction ins rule: length_induct)
  case (1 ins)
  show ?case
  proof (cases ins)
    case Nil
    then show ?thesis by simp
  next
    case (Cons l rest)
    have step1: "final_store (snd (search_books s rest)) = s"
      using 1 Cons by simp
    have step2: "final_store (snd (search_books s r2)) = s" if "rest = l2 # r2" for l2 r2
      using 1 Cons that by simp
    show ?thesis
      using step1 step2 Cons
      by (auto simp: Let_def split: list.splits option.splits)
  qed
qed

lemma view_all_books_reads: "final_store (snd (view_all_books s ins)) = s"
  by (simp add: view_all_books_def)

termination main_menu
proof (relation "measure (\<lambda>(s, ins). length ins)")
  show "wf (measure (\<lambda>(s, ins). length ins))" by simp
next
  fix s l ins r s' ins'
  assume "main_menu_choice s (strip l) ins = Some r" and "snd r = Returned s' ins'"
  then show "((s', ins'), (s, l # ins)) \<in> measure (\<lambda>(s, ins). length ins)"
    using main_menu_choice_unread[of s "strip l" ins r] by simp
qed

lemma main_menu_choice_writes:
  "main_menu_choice s menu ins = Some r \<Longrightarrow> wrote s (final_store (snd r))"
  by (auto simp: main_menu_choice_def add_book_or_author_writes update_book_writes
        delete_book_or_author_writes search_books_reads view_all_books_reads
        split: if_splits)

lemma main_menu_writes: "writes\<^sup>*\<^sup>* s (final_store (snd (main_menu s ins)))"
proof (induction s ins rule: main_menu.induct)
  case (1 s)
  then show ?case by simp
next
  case (2 s l ins)
  show ?case
  proof (cases "main_menu_choice s (strip l) ins")
    case None
    then show ?thesis by simp
  next
    case (Some r)
    have w: "wrote s (final_store (snd r))"
      using Some by (rule main_menu_choice_writes)
    show ?thesis
    proof (cases "snd r")
      case (Returned s' ins')
      have "writes\<^sup>*\<^sup>* s' (final_store (snd (main_menu s' ins')))"
        using "2.IH" Some Returned by simp
      moreover have "writes\<^sup>*\<^sup>* s s'"
        using w Returned by (auto simp: wrote_def)
      ultimately show ?thesis
        using Some Returned by simp
    next
      case (Raised e s')
      then show ?thesis
        using w Some by (auto simp: wrote_def)
    qed
  qed
qed

section \<open>Every book has its author\<close>

lemma author_by_id_iff: "author_by_id s i \<noteq> None \<longleftrightarrow> i \<in> a_id ` set (authors s)"
  by (auto simp: author_by_id_def find_None_iff)

lemma author_by_id_Some_iff:
  "(\<exists>a. author_by_id s i = Some a) \<longleftrightarrow> i \<in> a_id ` set (authors s)"
  using author_by_id_iff[of s i] by simp

lemma ref_inv_iff: "ref_inv s \<longleftrightarrow> (\<forall>b \<in> set (books s). b_author b \<in> a_id ` set (authors s))"
  by (simp add: ref_inv_def list_all_iff author_by_id_Some_iff)

lemma update_author_ids: "map a_id (authors (update_author n c i s)) = map a_id (authors s)"
  by (simp add: update_author_def)

lemma ref_inv_writes: "writes s s' \<Longrightarrow> ref_inv s \<Longrightarrow> ref_inv s'"
proof (induction rule: writes.induct)
  case (ins_author a s)
  then show ?case by (auto simp: ref_inv_iff set_insort_key)
next
  case (ins_book b s)
  then show ?case by (auto simp: ref_inv_iff set_insort_key author_by_id_Some_iff)
next
  case (set_qty s q i)
  then show ?case by (auto simp: ref_inv_iff update_qty_def)
next
  case (set_title s t i)
  then show ?case by (auto simp: ref_inv_iff update_title_def)
next
  case (set_author_id a s i)
  then show ?case by (auto simp: ref_inv_iff update_author_id_def author_by_id_Some_iff)
next
  case (set_author s n c i)
  have "a_id ` set (authors (update_author n c i s)) = a_id ` set (authors s)"
    using update_author_ids[of n c i s] by (metis set_map)
  with set_author show ?case by (simp add: ref_inv_iff update_author_def)
next
  case (del_book s i)
  then show ?case by (auto simp: ref_inv_iff delete_book_row_def)
next
  case (del_author s a)
  then have "\<forall>b \<in> set (books s). b_author b \<noteq> a"
    by (auto simp: books_of_author_def filter_empty_conv)
  with del_author show ?case
    by (fastforce simp: ref_inv_iff delete_author_row_def)
qed

lemma ref_inv_wrote: "wrote s s' \<Longrightarrow> ref_inv s \<Longrightarrow> ref_inv s'"
  using ref_inv_writes by (auto simp: wrote_def)

lemma ref_inv_writes_star: "writes\<^sup>*\<^sup>* s s' \<Longrightarrow> ref_inv s \<Longrightarrow> ref_inv s'"
  by (induction rule: rtranclp_induct) (auto intro: ref_inv_writes)

text \<open>
  Claim C1: if every book's \<open>authorID\<close> is the id of an author in the store, the same
  holds after any sequence of add, update and delete workflows, that is, after any run
  of the menu on any input, however it ends; adding a book, changing a book's
  \<open>authorID\<close> and deleting an author each keep it.
\<close>

theorem referential_invariant:
  assumes "ref_inv s"
  shows "ref_inv (final_store (snd (add_book s ins))) \<and>
         ref_inv (final_store (snd (update_book_author_id s book_id ins))) \<and>
         ref_inv (final_store (snd (delete_author s ins))) \<and>
         ref_inv (final_store (snd (add_book_or_author s ins))) \<and>
         ref_inv (final_store (snd (update_book s ins))) \<and>
         ref_inv (final_store (snd (delete_book_or_author s ins))) \<and>
         ref_inv (final_store (snd (main_menu s ins)))"
  using assms add_book_writes update_book_author_id_writes delete_author_writes
    add_book_or_author_writes update_book_writes delete_book_or_author_writes
    main_menu_writes ref_inv_wrote ref_inv_writes_star
  by blast

theorem referential_invariant_witness:
  "ref_inv sample_store \<and>
   book_by_id sample_store 4001 = None \<and>
   book_by_id
     (final_store (snd (main_menu sample_store
        [''1'', ''book'', ''4001'', ''Emma'', ''9999'', ''1290'', ''3'', ''3'', ''author'',
         ''1290'', ''0'']))) 4001 =
     Some \<lparr>b_id = 4001, b_title = cp ''Emma'', b_author = 1290, b_qty = 3\<rparr> \<and>
   ref_inv
     (final_store (snd (main_menu sample_store
        [''1'', ''book'', ''4001'', ''Emma'', ''9999'', ''1290'', ''3'', ''3'', ''author'',
         ''1290'', ''0''])))"
proof -
  have h: "ref_inv sample_store" by code_simp
  have e: "book_by_id sample_store 4001 = None \<and>
   book_by_id
     (final_store (snd (main_menu sample_store
        [''1'', ''book'', ''4001'', ''Emma'', ''9999'', ''1290'', ''3'', ''3'', ''author'',
         ''1290'', ''0'']))) 4001 =
     Some \<lparr>b_id = 4001, b_title = cp ''Emma'', b_author = 1290, b_qty = 3\<rparr>"
    by code_simp
  show ?thesis
    using h e referential_invariant [OF h, of
        "[''1'', ''book'', ''4001'', ''Emma'', ''9999'', ''1290'', ''3'', ''3'', ''author'',
         ''1290'', ''0'']"]
    by blast
qed

section \<open>The stored identifiers\<close>

lemma ids_inv_iff:
  "ids_inv s \<longleftrightarrow> (\<forall>b \<in> set (books s). id_ok (b_id b) \<and> id_ok (b_author b)) \<and>
                (\<forall>a \<in> set (authors s). id_ok (a_id a))"
  by (simp add: ids_inv_def list_all_iff)

lemma ids_inv_writes: "writes s s' \<Longrightarrow> ids_inv s \<Longrightarrow> ids_inv s'"
proof (induction rule: writes.induct)
  case (ins_author a s)
  then show ?case by (auto simp: ids_inv_iff set_insort_key)
next
  case (ins_book b s)
  then show ?case by (auto simp: ids_inv_iff set_insort_key)
next
  case (set_qty s q i)
  then show ?case by (auto simp: ids_inv_iff update_qty_def)
next
  case (set_title s t i)
  then show ?case by (auto simp: ids_inv_iff update_title_def)
next
  case (set_author_id a s i)
  then show ?case by (auto simp: ids_inv_iff update_author_id_def)
next
  case (set_author s n c i)
  then show ?case by (auto simp: ids_inv_iff update_author_def)
next
  case (del_book s i)
  then show ?case by (auto simp: ids_inv_iff delete_book_row_def)
next
  case (del_author s a)
  then show ?case by (auto simp: ids_inv_iff delete_author_row_def)
qed

lemma ids_inv_wrote: "wrote s s' \<Longrightarrow> ids_inv s \<Longrightarrow> ids_inv s'"
  using ids_inv_writes by (auto simp: wrote_def)

lemma ids_inv_writes_star: "writes\<^sup>*\<^sup>* s s' \<Longrightarrow> ids_inv s \<Longrightarrow> ids_inv s'"
  by (induction rule: rtranclp_induct) (auto intro: ids_inv_writes)

text \<open>
  Claim C7, as stated: every identifier that is accepted and stored is an integer whose
  decimal representation has exactly four digits. It fails for an entry with leading
  zeros: \<open>0042\<close> passes the check on the typed string and is stored as 42.
\<close>

theorem leading_zeros_counterexample:
  "four_digit_ids sample_store \<and>
   author_by_id
     (final_store (snd (add_book_or_author sample_store
        [''author'', ''0042'', ''jane austen'', ''england''])))
     42 =
     Some \<lparr>a_id = 42, a_name = cp ''Jane Austen'', a_country = cp ''England''\<rparr> \<and>
   \<not> four_digit 42 \<and>
   \<not> four_digit_ids
     (final_store (snd (add_book_or_author sample_store
        [''author'', ''0042'', ''jane austen'', ''england''])))"
  by code_simp

text \<open>
  Claim C7, amended: every identifier that is accepted and stored is an integer from 0
  to 9999, the value of a typed string of exactly four digits; this holds of every book
  id, of every author id and of every \<open>authorID\<close> of a book after any run of the add
  and update workflows and of the menu.
\<close>

theorem stored_ids_in_range:
  assumes "ids_inv s"
  shows "ids_inv (final_store (snd (add_book_or_author s ins))) \<and>
         ids_inv (final_store (snd (update_book s ins))) \<and>
         ids_inv (final_store (snd (main_menu s ins)))"
  using assms add_book_or_author_writes update_book_writes main_menu_writes
    ids_inv_wrote ids_inv_writes_star
  by blast

theorem stored_ids_in_range_witness:
  "ids_inv sample_store \<and>
   ids_inv (final_store (snd (add_book_or_author sample_store
      [''author'', ''0042'', ''jane austen'', ''england''])))"
proof -
  have h: "ids_inv sample_store" by code_simp
  show ?thesis
    using h stored_ids_in_range [OF h, of "[''author'', ''0042'', ''jane austen'', ''england'']"]
    by blast
qed

section \<open>The check of a typed identifier\<close>





text \<open>
  An entry of four characters among which is a superscript digit passes
  \<open>isdigit\<close> and the length check, and \<open>int\<close> then raises \<open>ValueError\<close>, which nothing
  catches.
\<close>

lemma superscript_digits_raise:
  "isdigit [char_of (178::nat), char_of (179::nat), char_of (185::nat), CHR ''1''] \<and>
   add_author_id sample_store
     [[char_of (178::nat), char_of (179::nat), char_of (185::nat), CHR ''1''], ''4000''] =
     ([Ask P_new_author_id], Raise_now ValueError)"
  by code_simp

section \<open>Deleting an author who has books\<close>

text \<open>
  Claim C4: when the id typed at the prompt of \<open>delete_author\<close> is that of an author
  whom at least one book refers to, the workflow reports the dependency and returns with
  the store as it was: what is written is the prompt for the id and the two lines of the
  report, so no confirmation is asked and no \<open>DELETE\<close> is run.
\<close>

theorem delete_author_guard:
  assumes "isdigit (strip l)" and "length (strip l) = 4"
    and "py_int (strip l) = Some a"
    and "author_by_id s a = Some au"
    and "books_of_author s a \<noteq> []"
  shows "delete_author s (l # ins) =
           ([Ask P_delete_author_id, Say M_author_has_books, Say M_delete_books_first],
            Returned s ins)"
proof -
  have x: "lower (strip l) \<noteq> ''x''"
    using assms(2) by (rule not_x_4)
  have ne: "strip l \<noteq> []"
    using assms(2) by auto
  have "delete_author_id s (l # ins) = ([Ask P_delete_author_id], Value (a, au) ins)"
    using assms x ne by (simp add: Let_def cancel_operation_def)
  then show ?thesis
    using assms(5) by (simp add: delete_author_def and_then_def emit_def)
qed

theorem delete_author_guard_witness:
  "isdigit (strip ''1290'') \<and> length (strip ''1290'') = 4 \<and>
   py_int (strip ''1290'') = Some 1290 \<and>
   author_by_id sample_store 1290 = Some (hd author_data) \<and>
   books_of_author sample_store 1290 = [hd book_data] \<and>
   delete_author sample_store [''1290'', ''yes''] =
     ([Ask P_delete_author_id, Say M_author_has_books, Say M_delete_books_first],
      Returned sample_store [''yes''])"
proof -
  have h: "isdigit (strip ''1290'') \<and> length (strip ''1290'') = 4 \<and>
     py_int (strip ''1290'') = Some 1290 \<and>
     author_by_id sample_store 1290 = Some (hd author_data) \<and>
     books_of_author sample_store 1290 = [hd book_data]"
    by code_simp
  then have "books_of_author sample_store 1290 \<noteq> []" by simp
  with h show ?thesis
    using delete_author_guard [of "''1290''" 1290 sample_store "hd author_data" "[''yes'']"]
    by blast
qed

section \<open>What the author branch of an update writes\<close>

lemma lower_not_x: "length t \<noteq> 1 \<Longrightarrow> lower t \<noteq> ''x''"
  using lower_length[of t] by auto

lemma same_but_author_refl: "same_but_author i s s"
  by (simp add: same_but_author_def list_all2_same)

lemma same_but_author_update: "same_but_author i s (update_author n c i s)"
  by (simp add: same_but_author_def update_author_def list_all2_map2 list_all2_same)

text \<open>
  Claim C10: the author branch of \<open>update_book\<close> leaves the table of books as it is,
  keeps the id of every author and leaves every author whose id differs from the
  \<open>authorID\<close> of the book, as read when the workflow started, as it is. The branch is
  taken when the choice is "author" and that author exists; when the author does not
  exist nothing is written and the choice is asked again.
\<close>

theorem update_author_frame:
  "same_but_author (b_author book) s
     (final_store (snd (update_book_author s book author ins))) \<and>
   (lower (strip l) = ''author'' \<longrightarrow>
      (\<forall>author. author_by_id s (b_author book) = Some author \<longrightarrow>
         update_book_choice s book_id book (l # ins) =
           emit [Ask P_update_what] (update_book_author s book author ins)) \<and>
      (author_by_id s (b_author book) = None \<longrightarrow>
         update_book_choice s book_id book (l # ins) =
           emit [Ask P_update_what, Say M_author_not_found]
             (update_book_choice s book_id book ins)))"
proof (intro conjI impI allI)
  show "same_but_author (b_author book) s
     (final_store (snd (update_book_author s book author ins)))"
    by (simp add: update_book_author_def Let_def same_but_author_refl same_but_author_update
          split: list.splits)
next
  fix author
  assume "lower (strip l) = ''author''" "author_by_id s (b_author book) = Some author"
  then show "update_book_choice s book_id book (l # ins) =
           emit [Ask P_update_what] (update_book_author s book author ins)"
    by (simp add: Let_def cancel_operation_def lower_not_x)
next
  assume "lower (strip l) = ''author''" "author_by_id s (b_author book) = None"
  then show "update_book_choice s book_id book (l # ins) =
           emit [Ask P_update_what, Say M_author_not_found]
             (update_book_choice s book_id book ins)"
    by (simp add: Let_def cancel_operation_def lower_not_x)
qed

theorem update_author_frame_witness:
  "lower (strip '' Author'') = ''author'' \<and>
   author_by_id sample_store (b_author (hd book_data)) = Some (hd author_data) \<and>
   update_book_choice sample_store 3001 (hd book_data) ['' Author'', ''Boz'', ''''] =
     emit [Ask P_update_what]
       (update_book_author sample_store (hd book_data) (hd author_data) [''Boz'', '''']) \<and>
   final_store (snd (update_book_author sample_store (hd book_data) (hd author_data)
      [''Boz'', ''''])) =
     sample_store\<lparr>authors :=
       \<lparr>a_id = 1290, a_name = cp ''Boz'', a_country = cp ''England''\<rparr> #
       tl (authors sample_store)\<rparr> \<and>
   same_but_author 1290 sample_store
     (final_store (snd (update_book_author sample_store (hd book_data) (hd author_data)
        [''Boz'', ''''])))"
proof -
  have h: "lower (strip '' Author'') = ''author'' \<and>
     author_by_id sample_store (b_author (hd book_data)) = Some (hd author_data) \<and>
     b_author (hd book_data) = 1290"
    by code_simp
  have e: "final_store (snd (update_book_author sample_store (hd book_data) (hd author_data)
      [''Boz'', ''''])) =
     sample_store\<lparr>authors :=
       \<lparr>a_id = 1290, a_name = cp ''Boz'', a_country = cp ''England''\<rparr> #
       tl (authors sample_store)\<rparr>"
    by code_simp
  show ?thesis
    using h e
      update_author_frame [of "hd book_data" sample_store "hd author_data" "[''Boz'', '''']"
        "'' Author''" 3001]
    by metis
qed

section \<open>The start of the program\<close>





section \<open>Searching by title\<close>














text \<open>
  What the amended claim leaves out: a longer pattern ends the program when the table has
  a row, and a query is read up to its first U+0000 only.
\<close>

lemma long_pattern_raises:
  assumes "lower (strip l) = ''title''" "lower (strip q) \<noteq> ''x''" "strip q \<noteq> []"
    and "like_too_long s (strip q)"
  shows "search_books s (l # q # ins) =
           ([Ask P_search_by, Ask P_search_title], Raised OperationalError s)"
  using assms by (simp add: Let_def cancel_operation_def lower_not_x)

lemma like_stops_at_nul:
  "books_like
     \<lparr>books = [\<lparr>b_id = 4001, b_title = cp ''Emma'', b_author = 1290, b_qty = 3\<rparr>],
      authors = []\<rparr>
     [CHR ''a'', CHR 0x00, CHR ''z'', CHR ''z'', CHR ''z''] =
     [\<lparr>b_id = 4001, b_title = cp ''Emma'', b_author = 1290, b_qty = 3\<rparr>] \<and>
   books_containing_nocase
     \<lparr>books = [\<lparr>b_id = 4001, b_title = cp ''Emma'', b_author = 1290, b_qty = 3\<rparr>],
      authors = []\<rparr>
     [CHR ''a'', CHR 0x00, CHR ''z'', CHR ''z'', CHR ''z''] = []"
  by code_simp

section \<open>Cancelling with x\<close>

text \<open>
  Claim C2: entering x, in either case, at any prompt of any workflow aborts the workflow,
  changes nothing in the store and returns to the menu.
  \<open>delete_book_or_author\<close> says so in its docstring, and the confirmation loop of
  \<open>delete_author\<close> does it, but the confirmation loop for a book never calls
  \<open>cancel_operation\<close>: there x is answered by "Please type 'yes' or 'no'." and the loop
  goes on, so that a following yes deletes the book. The prompts for the name and the
  country in \<open>add_author\<close> do not look for x either: x is stored as the name X.
\<close>

theorem cancel_not_at_every_prompt:
  "book_by_id sample_store 3001 \<noteq> None \<and>
   delete_book_or_author sample_store [''book'', ''3001'', ''x'', ''yes''] =
     ([Ask P_delete_what, Ask P_delete_book_id, Say_book M_book_selected (hd book_data),
       Ask P_confirm_book, Say M_type_yes_or_no, Ask P_confirm_book, Say M_book_deleted],
      Returned (delete_book_row 3001 sample_store) []) \<and>
   book_by_id (delete_book_row 3001 sample_store) 3001 = None \<and>
   author_by_id sample_store 4000 = None \<and>
   author_by_id (final_store (snd (add_author sample_store [''4000'', ''x'', ''X'']))) 4000 =
     Some \<lparr>a_id = 4000, a_name = cp ''X'', a_country = cp ''X''\<rparr>"
  by code_simp

section \<open>Empty text\<close>

text \<open>
  Claim C5: at a field that must not be empty (book title, author name, author country),
  an empty entry makes the prompt ask again; the workflow is not abandoned for it.
  The title loop of \<open>update_book\<close> does ask again, but in the add workflows the three
  fields are asked once: after an empty entry the message is printed and the function
  returns, with the lines that follow unread and the identifier typed before lost.
\<close>

theorem empty_text_abandons_add:
  "add_book_or_author sample_store [''book'', ''4001'', '''', ''Emma'', ''1290'', ''3''] =
     ([Ask P_add_what, Ask P_new_book_id, Ask P_book_title, Say M_title_required],
      Returned sample_store [''Emma'', ''1290'', ''3'']) \<and>
   add_book_or_author sample_store [''author'', ''4000'', '' '', ''Jane Austen'', ''England''] =
     ([Ask P_add_what, Ask P_new_author_id, Ask P_author_name, Say M_author_name_empty],
      Returned sample_store [''Jane Austen'', ''England'']) \<and>
   add_book_or_author sample_store [''author'', ''4000'', ''Jane Austen'', '''', ''England''] =
     ([Ask P_add_what, Ask P_new_author_id, Ask P_author_name, Ask P_author_country,
       Say M_author_country_empty],
      Returned sample_store [''England''])"
  by code_simp

section \<open>Title-casing\<close>

text \<open>
  Claim C9: the name and the country of an author are title-cased wherever they are
  written, in \<open>add_author\<close> and in the author branch of \<open>update_book\<close>.
  \<open>add_author\<close> applies \<open>title\<close>; the branch of \<open>update_book\<close> writes the stripped
  entry as it was typed.
\<close>

theorem update_author_not_title_cased:
  "author_by_id
     (final_store (snd (update_book sample_store
        [''3001'', ''author'', ''charles dickens'', ''england''])))
     1290 =
     Some \<lparr>a_id = 1290, a_name = cp ''charles dickens'', a_country = cp ''england''\<rparr> \<and>
   author_by_id
     (final_store (snd (add_author sample_store [''4000'', ''charles dickens'', ''england''])))
     4000 =
     Some \<lparr>a_id = 4000, a_name = cp ''Charles Dickens'', a_country = cp ''England''\<rparr> \<and>
   py_title ''charles dickens'' = cp ''Charles Dickens'' \<and>
   cp ''charles dickens'' \<noteq> py_title ''charles dickens''"
  by code_simp

end
